theory Spec2Isabelle
  imports Complex_Main "HOL-Library.Word" "HOL-Library.Char_ord" "HOL-Library.List_Lexorder"
    "HOL-Library.Product_Lexorder"
begin

section \<open>The data access facade of the guild leaderboard\<close>

text \<open>
  The module \<^verbatim>\<open>src/utils/database.py\<close> is a class \<^verbatim>\<open>Database\<close> of nine operations, each
  of which sends one SQL statement to PostgreSQL and shapes the rows that come back. The
  embedding has three layers, kept apart as they are in the source:
  \<^item> the stored tables (the \<^verbatim>\<open>CREATE TABLE\<close> statements of the class docstring) as lists of
    records; every column is nullable, as none is declared \<^verbatim>\<open>NOT NULL\<close>;
  \<^item> each SQL statement as a function from the tables to the list of rows it returns, with the
    PostgreSQL meaning of \<^verbatim>\<open>WHERE\<close>, \<^verbatim>\<open>ORDER BY\<close>, \<^verbatim>\<open>DISTINCT ON\<close>, \<^verbatim>\<open>array_length\<close>,
    \<^verbatim>\<open>cardinality\<close> and \<^verbatim>\<open>INSERT ... ON CONFLICT\<close> written out;
  \<^item> the Python around it (\<^verbatim>\<open>format_json\<close>, the comprehensions, the choice between \<^verbatim>\<open>conn\<close>
    and the pool), with every exception as an \<open>Inl\<close> result.
  Operations are modelled on an opened pool whose server answers each statement.
\<close>

subsection \<open>Python values and exceptions\<close>

datatype py_error = TypeError | KeyError | JSONDecodeError

text \<open>
  The values the operations return to their caller. The type \<open>'f\<close> stands for the binary
  floating-point numbers (PostgreSQL \<^verbatim>\<open>REAL\<close> and \<^verbatim>\<open>float\<close>, Python \<^verbatim>\<open>float\<close>); nothing here
  computes with them.
\<close>

datatype 'f pyval =
    PyNone
  | PyStr string
  | PyInt int
  | PyFloat 'f
  | PyBool bool
  | PyTimedelta int
  | PyList "'f pyval list"
  | PyDict "(string \<times> 'f pyval) list"

text \<open>An \<^verbatim>\<open>asyncpg.Record\<close>: the columns of one result row, in select-list order.\<close>

type_synonym 'f pyrecord = "(string \<times> 'f pyval) list"

subsection \<open>The stored tables\<close>

record 'f guild_row =
  guild_id :: "string option"
  guild_name :: "string option"
  capture_date :: "int option"
  players :: "string list option"
  average_weight :: "'f option"
  average_skills :: "'f option"
  average_catacombs :: "'f option"
  average_slayer :: "'f option"
  scammers :: "16 word option"
  position_change :: "16 word option"

record 'f player_row =
  uuid :: "string option"
  name :: "string option"
  weight :: "'f option"
  skill_weight :: "'f option"
  slayer_weight :: "'f option"
  dungeon_weight :: "'f option"
  average_skill :: "'f option"
  catacomb :: "'f option"
  catacomb_xp :: "'f option"
  total_slayer :: "'f option"
  capture_date :: "int option"
  scam_reason :: "string option"

record guild_information_row =
  guild_id :: "string option"
  discord :: "string option"

record 'f database =
  guilds_table :: "'f guild_row list"
  players_table :: "'f player_row list"
  guild_information_table :: "guild_information_row list"

subsection \<open>What surrounds a call\<close>

text \<open>
  \<open>json_keys\<close> is the attribute \<^verbatim>\<open>self.json_keys\<close> of the \<^verbatim>\<open>Database\<close> object and
  \<open>json_loads\<close> is \<^verbatim>\<open>json.loads\<close> of the Python library. \<open>round2\<close> is the server's evaluation of
  \<^verbatim>\<open>ROUND(x::numeric, 2)::float\<close> on a non-null \<^verbatim>\<open>REAL\<close>, and \<open>time_difference\<close> its evaluation
  of \<^verbatim>\<open>NOW() - capture_date::timestamptz at time zone 'UTC'\<close> on a non-null timestamp at the
  moment of the query.
\<close>

record 'f call_context =
  json_keys :: "string list"
  json_loads :: "'f pyval \<Rightarrow> py_error + 'f pyval"
  round2 :: "'f \<Rightarrow> 'f"
  time_difference :: "int \<Rightarrow> int"

subsection \<open>SQL values as asyncpg hands them to Python\<close>

definition sql_text :: "string option \<Rightarrow> 'f pyval" where
  "sql_text v = (case v of None \<Rightarrow> PyNone | Some s \<Rightarrow> PyStr s)"

definition sql_float :: "'f option \<Rightarrow> 'f pyval" where
  "sql_float v = (case v of None \<Rightarrow> PyNone | Some x \<Rightarrow> PyFloat x)"

definition sql_integer :: "int option \<Rightarrow> 'f pyval" where
  "sql_integer v = (case v of None \<Rightarrow> PyNone | Some n \<Rightarrow> PyInt n)"

definition sql_smallint :: "16 word option \<Rightarrow> 'f pyval" where
  "sql_smallint v = (case v of None \<Rightarrow> PyNone | Some w \<Rightarrow> PyInt (sint w))"

definition sql_text_array :: "string list option \<Rightarrow> 'f pyval" where
  "sql_text_array v = (case v of None \<Rightarrow> PyNone | Some xs \<Rightarrow> PyList (map PyStr xs))"

definition sql_interval :: "int option \<Rightarrow> 'f pyval" where
  "sql_interval v = (case v of None \<Rightarrow> PyNone | Some d \<Rightarrow> PyTimedelta d)"

subsection \<open>SQL expressions of the select lists\<close>

text \<open>\<^verbatim>\<open>ROUND(x::numeric, 2)::float\<close>: null on null.\<close>

definition round_expr :: "'f call_context \<Rightarrow> 'f option \<Rightarrow> 'f option" where
  "round_expr ctx x = map_option (round2 ctx) x"

text \<open>\<^verbatim>\<open>NOW() - capture_date::timestamptz at time zone 'UTC'\<close>: null on null.\<close>

definition time_difference_expr :: "'f call_context \<Rightarrow> int option \<Rightarrow> int option" where
  "time_difference_expr ctx d = map_option (time_difference ctx) d"

text \<open>
  \<^verbatim>\<open>array_length(players, 1)\<close>: the length of the first dimension; PostgreSQL gives null for
  a null array and for an array without elements, which has no dimension.
\<close>

definition array_length :: "string list option \<Rightarrow> int option" where
  "array_length a = (case a of None \<Rightarrow> None | Some [] \<Rightarrow> None | Some (x # xs) \<Rightarrow> Some (int (length (x # xs))))"

text \<open>\<^verbatim>\<open>cardinality(players)\<close>: the number of elements, 0 for an array without elements.\<close>

definition cardinality :: "string list option \<Rightarrow> int option" where
  "cardinality a = (case a of None \<Rightarrow> None | Some xs \<Rightarrow> Some (int (length xs)))"

subsection \<open>Ordering and DISTINCT ON\<close>

text \<open>
  Sort keys whose order is PostgreSQL's order of a nullable column: ascending puts null last,
  descending puts null first. Text is compared bytewise. Rows with equal keys keep their table
  order (\<open>sort_key\<close> is stable); no statement below depends on that choice.
\<close>

definition text_asc :: "string option \<Rightarrow> nat \<times> string" where
  "text_asc v = (case v of None \<Rightarrow> (1, []) | Some s \<Rightarrow> (0, s))"

definition timestamp_asc :: "int option \<Rightarrow> nat \<times> int" where
  "timestamp_asc v = (case v of None \<Rightarrow> (1, 0) | Some t \<Rightarrow> (0, t))"

definition timestamp_desc :: "int option \<Rightarrow> nat \<times> int" where
  "timestamp_desc v = (case v of None \<Rightarrow> (0, 0) | Some t \<Rightarrow> (1, - t))"

text \<open>
  PostgreSQL's order of a nullable timestamp column: null sorts after every timestamp.
\<close>

definition timestamp_le :: "int option \<Rightarrow> int option \<Rightarrow> bool" where
  "timestamp_le a b = (case b of None \<Rightarrow> True | Some y \<Rightarrow> (case a of None \<Rightarrow> False | Some x \<Rightarrow> x \<le> y))"

text \<open>
  \<^verbatim>\<open>DISTINCT ON (k)\<close> over rows already ordered by \<open>k\<close>: the first row of each run of rows
  with equal \<open>k\<close> is kept (nulls count as equal).
\<close>

fun distinct_on :: "('a \<Rightarrow> 'k) \<Rightarrow> 'a list \<Rightarrow> 'a list" where
  "distinct_on k [] = []"
| "distinct_on k [x] = [x]"
| "distinct_on k (x # y # xs) =
     (if k x = k y then distinct_on k (x # xs) else x # distinct_on k (y # xs))"

subsection \<open>asyncpg: fetch, fetchrow\<close>

text \<open>\<^verbatim>\<open>fetchrow\<close> returns the first row of the result, or \<^verbatim>\<open>None\<close>.\<close>

definition fetchrow :: "'a list \<Rightarrow> 'a option" where
  "fetchrow rows = (case rows of [] \<Rightarrow> None | r # _ \<Rightarrow> Some r)"

text \<open>\<^verbatim>\<open>row['key']\<close> on a record.\<close>

definition getitem :: "'f pyrecord \<Rightarrow> string \<Rightarrow> py_error + 'f pyval" where
  "getitem r key = (case map_of r key of None \<Rightarrow> Inl KeyError | Some v \<Rightarrow> Inr v)"

text \<open>A list comprehension whose element expression may raise: the first exception ends it.\<close>

fun comprehension :: "('a \<Rightarrow> py_error + 'b) \<Rightarrow> 'a list \<Rightarrow> py_error + 'b list" where
  "comprehension f [] = Inr []"
| "comprehension f (x # xs) =
     (case f x of Inl e \<Rightarrow> Inl e
      | Inr y \<Rightarrow> (case comprehension f xs of Inl e \<Rightarrow> Inl e | Inr ys \<Rightarrow> Inr (y # ys)))"

subsection \<open>format\_json\<close>

fun format_items :: "'f call_context \<Rightarrow> 'f pyrecord \<Rightarrow> py_error + 'f pyrecord" where
  "format_items ctx [] = Inr []"
| "format_items ctx ((key, val) # items) =
     (case (if key \<in> set (json_keys ctx) then json_loads ctx val else Inr val) of
        Inl e \<Rightarrow> Inl e
      | Inr v \<Rightarrow> (case format_items ctx items of Inl e \<Rightarrow> Inl e | Inr d \<Rightarrow> Inr ((key, v) # d)))"

definition format_json :: "'f call_context \<Rightarrow> 'f pyrecord option \<Rightarrow> py_error + 'f pyval" where
  "format_json ctx rcd =
     (case rcd of None \<Rightarrow> Inr PyNone
      | Some r \<Rightarrow> (case format_items ctx r of Inl e \<Rightarrow> Inl e | Inr d \<Rightarrow> Inr (PyDict d)))"

subsection \<open>The statements\<close>

text \<open>The rows that \<^verbatim>\<open>get_guilds\<close> and \<^verbatim>\<open>get_id_name_autocomplete\<close> select:
  \<^verbatim>\<open>SELECT DISTINCT ON (guild_id) ... FROM guilds ORDER BY guild_id, capture_date DESC\<close>.\<close>

definition latest_rows :: "'f guild_row list \<Rightarrow> 'f guild_row list" where
  "latest_rows rows =
     distinct_on guild_row.guild_id
       (sort_key (\<lambda>r. (text_asc (guild_row.guild_id r), timestamp_desc (guild_row.capture_date r))) rows)"

text \<open>\<^verbatim>\<open>WHERE guild_id = $1\<close>: a null \<^verbatim>\<open>guild_id\<close> matches nothing.\<close>

definition where_guild_id :: "string \<Rightarrow> 'f guild_row list \<Rightarrow> 'f guild_row list" where
  "where_guild_id g rows = filter (\<lambda>r. guild_row.guild_id r = Some g) rows"

text \<open>\<^verbatim>\<open>ORDER BY capture_date\<close>.\<close>

definition order_by_capture_date :: "'f guild_row list \<Rightarrow> 'f guild_row list" where
  "order_by_capture_date rows = sort_key (\<lambda>r. timestamp_asc (guild_row.capture_date r)) rows"

definition get_guilds_select :: "'f call_context \<Rightarrow> 'f guild_row \<Rightarrow> 'f pyrecord" where
  "get_guilds_select ctx r =
     [(''average_catacombs'', sql_float (round_expr ctx (average_catacombs r))),
      (''average_skills'', sql_float (round_expr ctx (average_skills r))),
      (''average_slayer'', sql_float (round_expr ctx (average_slayer r))),
      (''average_weight'', sql_float (round_expr ctx (average_weight r))),
      (''guild_id'', sql_text (guild_row.guild_id r)),
      (''guild_name'', sql_text (guild_name r)),
      (''players'', sql_integer (array_length (players r))),
      (''time_difference'', sql_interval (time_difference_expr ctx (guild_row.capture_date r))),
      (''scammers'', sql_smallint (scammers r)),
      (''position_change'', sql_smallint (position_change r))]"

definition get_guild_select :: "'f call_context \<Rightarrow> 'f guild_row \<Rightarrow> 'f pyrecord" where
  "get_guild_select ctx r =
     [(''average_catacombs'', sql_float (round_expr ctx (average_catacombs r))),
      (''average_skills'', sql_float (round_expr ctx (average_skills r))),
      (''average_slayer'', sql_float (round_expr ctx (average_slayer r))),
      (''average_weight'', sql_float (round_expr ctx (average_weight r))),
      (''guild_id'', sql_text (guild_row.guild_id r)),
      (''guild_name'', sql_text (guild_name r)),
      (''players'', sql_text_array (players r)),
      (''time_difference'', sql_interval (time_difference_expr ctx (guild_row.capture_date r))),
      (''scammers'', sql_smallint (scammers r))]"

definition get_guild_metrics_select :: "'f call_context \<Rightarrow> 'f guild_row \<Rightarrow> 'f pyrecord" where
  "get_guild_metrics_select ctx r =
     [(''average_weight'', sql_float (round_expr ctx (average_weight r))),
      (''average_skills'', sql_float (round_expr ctx (average_skills r))),
      (''average_catacombs'', sql_float (round_expr ctx (average_catacombs r))),
      (''average_slayer'', sql_float (round_expr ctx (average_slayer r))),
      (''member_count'', sql_integer (cardinality (players r))),
      (''time_difference'', sql_interval (time_difference_expr ctx (guild_row.capture_date r)))]"

definition get_guild_history_select :: "'f call_context \<Rightarrow> 'f guild_row \<Rightarrow> 'f pyrecord" where
  "get_guild_history_select ctx r =
     [(''players'', sql_text_array (players r)),
      (''time_difference'', sql_interval (time_difference_expr ctx (guild_row.capture_date r)))]"

definition get_id_name_autocomplete_select :: "'f guild_row \<Rightarrow> 'f pyrecord" where
  "get_id_name_autocomplete_select r =
     [(''guild_id'', sql_text (guild_row.guild_id r)), (''guild_name'', sql_text (guild_name r))]"

text \<open>\<^verbatim>\<open>WHERE uuid = ANY($1)\<close>: a null \<^verbatim>\<open>uuid\<close> matches nothing.\<close>

definition where_uuid_any :: "string list \<Rightarrow> 'f player_row list \<Rightarrow> 'f player_row list" where
  "where_uuid_any uuids rows = filter (\<lambda>r. case uuid r of None \<Rightarrow> False | Some u \<Rightarrow> u \<in> set uuids) rows"

definition get_names_select :: "'f player_row \<Rightarrow> 'f pyrecord" where
  "get_names_select r = [(''uuid'', sql_text (uuid r)), (''name'', sql_text (name r))]"

definition get_players_select :: "'f call_context \<Rightarrow> 'f player_row \<Rightarrow> 'f pyrecord" where
  "get_players_select ctx r =
     [(''uuid'', sql_text (uuid r)),
      (''name'', sql_text (name r)),
      (''weight'', sql_float (round_expr ctx (weight r))),
      (''average_skill'', sql_float (round_expr ctx (average_skill r))),
      (''catacomb'', sql_float (round_expr ctx (catacomb r))),
      (''total_slayer'', sql_float (round_expr ctx (total_slayer r))),
      (''time_difference'', sql_interval (time_difference_expr ctx (player_row.capture_date r))),
      (''scam_reason'', sql_text (scam_reason r))]"

text \<open>\<^verbatim>\<open>SELECT discord FROM guild_information WHERE guild_id = $1\<close>.\<close>

definition get_guild_discord_query :: "guild_information_row list \<Rightarrow> string \<Rightarrow> 'f pyrecord list" where
  "get_guild_discord_query rows g =
     map (\<lambda>r. [(''discord'', sql_text (discord r))])
       (filter (\<lambda>r. guild_information_row.guild_id r = Some g) rows)"

text \<open>
  \<^verbatim>\<open>INSERT INTO guild_information (guild_id, discord) VALUES ($1, $2)
  ON CONFLICT (guild_id) DO UPDATE SET discord = $2\<close>, on a table whose \<^verbatim>\<open>guild_id\<close> carries
  the unique index the conflict target names: the row in conflict, if there is one, gets the
  new \<^verbatim>\<open>discord\<close>; otherwise the new row is added.
\<close>

fun insert_on_conflict_update ::
  "string \<Rightarrow> string \<Rightarrow> guild_information_row list \<Rightarrow> guild_information_row list" where
  "insert_on_conflict_update g d [] =
     [\<lparr>guild_information_row.guild_id = Some g, discord = Some d\<rparr>]"
| "insert_on_conflict_update g d (r # rows) =
     (if guild_information_row.guild_id r = Some g then r\<lparr>discord := Some d\<rparr> # rows
      else r # insert_on_conflict_update g d rows)"

text \<open>The unique index on \<^verbatim>\<open>guild_information.guild_id\<close>: no two rows share a non-null value.\<close>

definition unique_guild_id :: "guild_information_row list \<Rightarrow> bool" where
  "unique_guild_id rows =
     distinct (filter (\<lambda>v. v \<noteq> None) (map guild_information_row.guild_id rows))"

subsection \<open>The nine operations\<close>

text \<open>\<^verbatim>\<open>if conn: ... else: ...\<close>: the caller's connection when one is given, else the pool.\<close>

definition conn_or_pool :: "'f database \<Rightarrow> 'f database option \<Rightarrow> 'f database" where
  "conn_or_pool pool conn = (case conn of Some c \<Rightarrow> c | None \<Rightarrow> pool)"

definition get_guilds :: "'f call_context \<Rightarrow> 'f database \<Rightarrow> py_error + 'f pyval list" where
  "get_guilds ctx pool =
     (let r = map (get_guilds_select ctx) (latest_rows (guilds_table pool))
      in comprehension (\<lambda>row. format_json ctx (Some row)) r)"

definition get_guild ::
  "'f call_context \<Rightarrow> 'f database \<Rightarrow> string \<Rightarrow> 'f database option \<Rightarrow> py_error + 'f pyval" where
  "get_guild ctx pool g conn =
     (let r = fetchrow (map (get_guild_select ctx)
                (latest_rows (where_guild_id g (guilds_table (conn_or_pool pool conn)))))
      in format_json ctx r)"

definition get_guild_metrics ::
  "'f call_context \<Rightarrow> 'f database \<Rightarrow> string \<Rightarrow> py_error + 'f pyval list" where
  "get_guild_metrics ctx pool g =
     (let r = map (get_guild_metrics_select ctx)
                (order_by_capture_date (where_guild_id g (guilds_table pool)))
      in if r \<noteq> [] then comprehension (\<lambda>row. format_json ctx (Some row)) r else Inr [])"

definition get_guild_history ::
  "'f call_context \<Rightarrow> 'f database \<Rightarrow> string \<Rightarrow> py_error + 'f pyval list" where
  "get_guild_history ctx pool g =
     (let r = map (get_guild_history_select ctx)
                (order_by_capture_date (where_guild_id g (guilds_table pool)))
      in if r \<noteq> [] then comprehension (\<lambda>row. format_json ctx (Some row)) r else Inr [])"

definition id_name :: "'f pyrecord \<Rightarrow> py_error + 'f pyval" where
  "id_name row =
     (case getitem row ''guild_id'' of Inl e \<Rightarrow> Inl e
      | Inr i \<Rightarrow> (case getitem row ''guild_name'' of Inl e \<Rightarrow> Inl e
          | Inr n \<Rightarrow> Inr (PyDict [(''id'', i), (''name'', n)])))"

definition get_id_name_autocomplete :: "'f database \<Rightarrow> py_error + 'f pyval list" where
  "get_id_name_autocomplete pool =
     (let r = map get_id_name_autocomplete_select (latest_rows (guilds_table pool))
      in comprehension id_name r)"

text \<open>
  The dict comprehension \<^verbatim>\<open>{row['uuid']: row['name'] for row in r}\<close>: a key met again keeps
  its place and takes the later value. The keys of \<open>PyDict\<close> are text; the rows that
  \<^verbatim>\<open>uuid = ANY($1)\<close> selects have a text \<^verbatim>\<open>uuid\<close>, so the last case of \<open>names_dict\<close> is never
  taken (lemma \<open>get_names_raw\<close> below).
\<close>

fun dict_set :: "('k \<times> 'v) list \<Rightarrow> 'k \<Rightarrow> 'v \<Rightarrow> ('k \<times> 'v) list" where
  "dict_set [] k v = [(k, v)]"
| "dict_set ((k', v') # d) k v = (if k' = k then (k', v) # d else (k', v') # dict_set d k v)"

fun names_dict :: "(string \<times> 'f pyval) list \<Rightarrow> 'f pyrecord list \<Rightarrow> py_error + 'f pyval" where
  "names_dict d [] = Inr (PyDict d)"
| "names_dict d (row # rows) =
     (case getitem row ''uuid'' of Inl e \<Rightarrow> Inl e
      | Inr (PyStr u) \<Rightarrow> (case getitem row ''name'' of Inl e \<Rightarrow> Inl e
          | Inr n \<Rightarrow> names_dict (dict_set d u n) rows)
      | Inr _ \<Rightarrow> Inl TypeError)"

definition get_names :: "'f database \<Rightarrow> string list \<Rightarrow> py_error + 'f pyval" where
  "get_names pool uuids =
     (let r = map get_names_select (where_uuid_any uuids (players_table pool))
      in names_dict [] r)"

definition get_players ::
  "'f call_context \<Rightarrow> 'f database \<Rightarrow> string list \<Rightarrow> 'f database option \<Rightarrow> py_error + 'f pyval list" where
  "get_players ctx pool uuids conn =
     (let r = map (get_players_select ctx)
                (where_uuid_any uuids (players_table (conn_or_pool pool conn)))
      in comprehension (\<lambda>row. format_json ctx (Some row)) r)"

definition upsert_guild_info :: "'f database \<Rightarrow> string \<Rightarrow> string \<Rightarrow> 'f database" where
  "upsert_guild_info pool g discordid =
     pool\<lparr>guild_information_table :=
       insert_on_conflict_update g discordid (guild_information_table pool)\<rparr>"

definition get_guild_discord ::
  "'f database \<Rightarrow> string \<Rightarrow> 'f database option \<Rightarrow> py_error + 'f pyval" where
  "get_guild_discord pool g conn =
     (let r = fetchrow (get_guild_discord_query
                (guild_information_table (conn_or_pool pool conn)) g)
      in case r of Some row \<Rightarrow> getitem row ''discord'' | None \<Rightarrow> Inr PyNone)"

subsection \<open>Calling an operation with or without a connection\<close>

text \<open>
  The application calls an operation by name, with its arguments and perhaps the keyword
  argument \<^verbatim>\<open>conn\<close>. Three signatures have \<^verbatim>\<open>conn=None\<close>; Python raises \<^verbatim>\<open>TypeError\<close> when the
  other six are called with it. The result is what the caller gets back, with the pool's
  database after the call.
\<close>

datatype request =
    Get_guilds
  | Get_guild string
  | Get_guild_metrics string
  | Get_guild_history string
  | Get_id_name_autocomplete
  | Get_names "string list"
  | Get_players "string list"
  | Upsert_guild_info string string
  | Get_guild_discord string

definition returning :: "'f database \<Rightarrow> ('a \<Rightarrow> 'f pyval) \<Rightarrow> py_error + 'a \<Rightarrow> py_error + 'f pyval \<times> 'f database" where
  "returning pool wrap res = (case res of Inl e \<Rightarrow> Inl e | Inr v \<Rightarrow> Inr (wrap v, pool))"

fun call_operation ::
  "'f call_context \<Rightarrow> 'f database \<Rightarrow> request \<Rightarrow> 'f database option \<Rightarrow> py_error + 'f pyval \<times> 'f database" where
  "call_operation ctx pool Get_guilds conn =
     (case conn of Some c \<Rightarrow> Inl TypeError | None \<Rightarrow> returning pool PyList (get_guilds ctx pool))"
| "call_operation ctx pool (Get_guild g) conn = returning pool id (get_guild ctx pool g conn)"
| "call_operation ctx pool (Get_guild_metrics g) conn =
     (case conn of Some c \<Rightarrow> Inl TypeError
      | None \<Rightarrow> returning pool PyList (get_guild_metrics ctx pool g))"
| "call_operation ctx pool (Get_guild_history g) conn =
     (case conn of Some c \<Rightarrow> Inl TypeError
      | None \<Rightarrow> returning pool PyList (get_guild_history ctx pool g))"
| "call_operation ctx pool Get_id_name_autocomplete conn =
     (case conn of Some c \<Rightarrow> Inl TypeError
      | None \<Rightarrow> returning pool PyList (get_id_name_autocomplete pool))"
| "call_operation ctx pool (Get_names uuids) conn =
     (case conn of Some c \<Rightarrow> Inl TypeError | None \<Rightarrow> returning pool id (get_names pool uuids))"
| "call_operation ctx pool (Get_players uuids) conn =
     returning pool PyList (get_players ctx pool uuids conn)"
| "call_operation ctx pool (Upsert_guild_info g d) conn =
     (case conn of Some c \<Rightarrow> Inl TypeError | None \<Rightarrow> Inr (PyNone, upsert_guild_info pool g d))"
| "call_operation ctx pool (Get_guild_discord g) conn =
     returning pool id (get_guild_discord pool g conn)"

subsection \<open>The row shaping contract in the words of the specification\<close>

text \<open>
  A field whose name is in \<open>json_keys\<close> is returned JSON-decoded; every other field is
  returned as it is. \<open>decoding_rule ctx raw out\<close> says that the record \<open>out\<close> is the record
  \<open>raw\<close> shaped so.
\<close>

definition decoded_field :: "'f call_context \<Rightarrow> string \<times> 'f pyval \<Rightarrow> string \<times> 'f pyval \<Rightarrow> bool" where
  "decoded_field ctx raw out =
     (fst out = fst raw \<and>
      (if fst raw \<in> set (json_keys ctx) then json_loads ctx (snd raw) = Inr (snd out)
       else snd out = snd raw))"

definition decoding_rule :: "'f call_context \<Rightarrow> 'f pyrecord \<Rightarrow> 'f pyrecord \<Rightarrow> bool" where
  "decoding_rule ctx raw out = list_all2 (decoded_field ctx) raw out"

subsection \<open>Values for the examples\<close>

text \<open>
  A stand-in for \<^verbatim>\<open>json.loads\<close> in the examples, which evaluate it only on the text
  \<^verbatim>\<open>7\<close>: that is the JSON number 7. (On a value that is not text \<^verbatim>\<open>json.loads\<close> raises
  \<^verbatim>\<open>TypeError\<close>.)
\<close>

definition example_loads :: "rat pyval \<Rightarrow> py_error + rat pyval" where
  "example_loads v =
     (case v of PyStr s \<Rightarrow> (if s = ''7'' then Inr (PyInt 7) else Inl JSONDecodeError)
      | _ \<Rightarrow> Inl TypeError)"

definition example_context :: "string list \<Rightarrow> rat call_context" where
  "example_context keys =
     \<lparr>json_keys = keys, json_loads = example_loads, round2 = (\<lambda>x. x),
      time_difference = (\<lambda>t. 1000 - t)\<rparr>"

definition example_guild :: "string \<Rightarrow> string \<Rightarrow> int \<Rightarrow> string list \<Rightarrow> rat guild_row" where
  "example_guild g n t ps =
     \<lparr>guild_row.guild_id = Some g, guild_name = Some n, capture_date = Some t,
      players = Some ps, average_weight = Some 1, average_skills = Some 2,
      average_catacombs = Some 3, average_slayer = Some 4, scammers = Some 0,
      position_change = Some 0\<rparr>"

definition example_player :: "string \<Rightarrow> string \<Rightarrow> rat player_row" where
  "example_player u n =
     \<lparr>uuid = Some u, name = Some n, weight = Some 1, skill_weight = Some 1,
      slayer_weight = Some 1, dungeon_weight = Some 1, average_skill = Some 2,
      catacomb = Some 3, catacomb_xp = Some 3, total_slayer = Some 4,
      capture_date = Some 3, scam_reason = None\<rparr>"

definition example_pool :: "rat database" where
  "example_pool =
     \<lparr>guilds_table =
        [example_guild ''G1'' ''Alpha'' 5 [''u1''],
         example_guild ''G2'' ''7'' 7 [],
         example_guild ''G1'' ''Alpha2'' 9 [''u1'', ''u2'']],
      players_table = [example_player ''u1'' ''7''],
      guild_information_table =
        [\<lparr>guild_information_row.guild_id = Some ''G1'', discord = Some ''7''\<rparr>]\<rparr>"

text \<open>A database without rows, for a connection that differs from the pool.\<close>

definition empty_database :: "rat database" where
  "empty_database = \<lparr>guilds_table = [], players_table = [], guild_information_table = []\<rparr>"

section \<open>Ordering, DISTINCT ON and fetchrow\<close>

lemma timestamp_desc_le: "timestamp_desc a \<le> timestamp_desc b \<longleftrightarrow> timestamp_le b a"
  by (auto simp: timestamp_desc_def timestamp_le_def split: option.splits)

lemma timestamp_asc_le: "timestamp_asc a \<le> timestamp_asc b \<longleftrightarrow> timestamp_le a b"
  by (auto simp: timestamp_asc_def timestamp_le_def split: option.splits)

lemma text_asc_inj: "text_asc a = text_asc b \<longleftrightarrow> a = b"
  by (auto simp: text_asc_def split: option.splits)

lemma fetchrow_map: "fetchrow (map f xs) = map_option f (fetchrow xs)"
  by (cases xs) (simp_all add: fetchrow_def)

lemma fetchrow_None: "fetchrow xs = None \<longleftrightarrow> xs = []"
  by (cases xs) (simp_all add: fetchrow_def)

lemma fetchrow_distinct_on: "fetchrow (distinct_on k xs) = fetchrow xs"
  by (induction k xs rule: distinct_on.induct) (auto simp: fetchrow_def)

lemma set_distinct_on: "set (distinct_on k xs) \<subseteq> set xs"
  by (induction k xs rule: distinct_on.induct) auto

lemma distinct_on_Nil: "distinct_on k xs = [] \<longleftrightarrow> xs = []"
  by (induction k xs rule: distinct_on.induct) auto

lemma fetchrow_sort_key_least:
  assumes "fetchrow (sort_key K xs) = Some h"
  shows "h \<in> set xs \<and> (\<forall>x\<in>set xs. K h \<le> K x)"
proof -
  obtain t where eq: "sort_key K xs = h # t"
    using assms by (auto simp: fetchrow_def split: list.splits)
  have "sorted (map K (h # t))"
    using sorted_sort_key [of K xs] eq by simp
  moreover have "set (h # t) = set xs"
    using set_sort [of K xs] eq by simp
  ultimately show ?thesis by auto
qed

lemma latest_rows_Nil: "latest_rows rows = [] \<longleftrightarrow> rows = []"
proof -
  have "sort_key K rows = [] \<longleftrightarrow> rows = []"
    for K :: "'a guild_row \<Rightarrow> (nat \<times> string) \<times> nat \<times> int"
    using length_sort [of K rows] by (metis length_0_conv)
  then show ?thesis by (simp add: latest_rows_def distinct_on_Nil)
qed

lemma fetchrow_latest_rows:
  assumes "fetchrow (latest_rows (where_guild_id g rows)) = Some h"
  shows "h \<in> set rows \<and> guild_row.guild_id h = Some g \<and>
    (\<forall>r\<in>set rows. guild_row.guild_id r = Some g \<longrightarrow>
       timestamp_le (guild_row.capture_date r) (guild_row.capture_date h))"
proof -
  let ?K = "\<lambda>r. (text_asc (guild_row.guild_id r), timestamp_desc (guild_row.capture_date r))"
  have "fetchrow (sort_key ?K (where_guild_id g rows)) = Some h"
    using assms by (simp add: latest_rows_def fetchrow_distinct_on)
  then have h: "h \<in> set (where_guild_id g rows)"
    and least: "\<forall>x\<in>set (where_guild_id g rows). ?K h \<le> ?K x"
    using fetchrow_sort_key_least [of ?K] by blast+
  from h have hg: "h \<in> set rows" "guild_row.guild_id h = Some g"
    by (simp_all add: where_guild_id_def)
  have "timestamp_le (guild_row.capture_date r) (guild_row.capture_date h)"
    if "r \<in> set rows" "guild_row.guild_id r = Some g" for r
  proof -
    from that have "r \<in> set (where_guild_id g rows)" by (simp add: where_guild_id_def)
    with least have "?K h \<le> ?K r" by blast
    with that hg show ?thesis by (simp add: timestamp_desc_le)
  qed
  with hg show ?thesis by blast
qed

lemma where_guild_id_Nil:
  "where_guild_id g rows = [] \<longleftrightarrow> (\<forall>r\<in>set rows. guild_row.guild_id r \<noteq> Some g)"
  by (simp add: where_guild_id_def filter_empty_conv)

lemma distinct_on_cong:
  "(\<And>x y. k x = k y \<longleftrightarrow> k' x = k' y) \<Longrightarrow> distinct_on k xs = distinct_on k' xs"
  by (induction k xs rule: distinct_on.induct) auto

lemma image_distinct_on: "f ` set (distinct_on f xs) = f ` set xs"
  by (induction f xs rule: distinct_on.induct) auto

lemma distinct_distinct_on:
  fixes f :: "'a \<Rightarrow> 'b::linorder"
  shows "sorted (map f xs) \<Longrightarrow> distinct (map f (distinct_on f xs))"
proof (induction f xs rule: distinct_on.induct)
  case (3 k x y xs)
  show ?case
  proof (cases "k x = k y")
    case True
    with 3 show ?thesis by simp
  next
    case False
    have "k x < k y" using "3.prems" False by (auto simp: less_le)
    moreover have "\<forall>z\<in>set (y # xs). k y \<le> k z" using "3.prems" by auto
    ultimately have "k x \<notin> k ` set (y # xs)" by force
    then have "k x \<notin> k ` set (distinct_on k (y # xs))"
      by (metis image_distinct_on)
    with 3 False show ?thesis by simp
  qed
qed simp_all

lemma sorted_fst:
  fixes K :: "'a \<Rightarrow> 'b::linorder \<times> 'c::linorder"
  shows "sorted (map K xs) \<Longrightarrow> sorted (map (\<lambda>x. fst (K x)) xs)"
  by (induction xs) (auto simp: less_eq_prod_def)

lemma distinct_on_first:
  fixes K :: "'a \<Rightarrow> 'b::linorder \<times> 'c::linorder"
  assumes "sorted (map K xs)" "r \<in> set (distinct_on (\<lambda>x. fst (K x)) xs)" "r' \<in> set xs"
    "fst (K r') = fst (K r)"
  shows "K r \<le> K r'"
  using assms
proof (induction "\<lambda>x. fst (K x)" xs arbitrary: r r' rule: distinct_on.induct)
  case 1
  then show ?case by simp
next
  case (2 x)
  then show ?case by simp
next
  case (3 x y xs)
  show ?case
  proof (cases "fst (K x) = fst (K y)")
    case True
    with "3.prems" have r: "r \<in> set (distinct_on (\<lambda>x. fst (K x)) (x # xs))" by simp
    have s: "sorted (map K (x # xs))" using "3.prems"(1) by simp
    show ?thesis
    proof (cases "r' = y")
      case True
      have "K r \<le> K x"
        using "3.hyps"(1) [OF \<open>fst (K x) = fst (K y)\<close> s r, of x] "3.prems"(4) True
          \<open>fst (K x) = fst (K y)\<close> by simp
      moreover have "K x \<le> K y" using "3.prems"(1) by simp
      ultimately show ?thesis using True by simp
    next
      case False
      with "3.prems" have "r' \<in> set (x # xs)" by auto
      from "3.hyps"(1) [OF True s r this "3.prems"(4)] show ?thesis .
    qed
  next
    case False
    have s: "sorted (map K (y # xs))" using "3.prems"(1) by simp
    from "3.prems" False have "r = x \<or> r \<in> set (distinct_on (\<lambda>x. fst (K x)) (y # xs))" by simp
    then show ?thesis
    proof
      assume "r = x"
      with "3.prems"(1,3) show ?thesis by auto
    next
      assume r: "r \<in> set (distinct_on (\<lambda>x. fst (K x)) (y # xs))"
      then have "r \<in> set (y # xs)" using set_distinct_on by fastforce
      then have "K y \<le> K r" using "3.prems"(1) by auto
      moreover have "K x \<le> K y" using "3.prems"(1) by simp
      ultimately have "fst (K x) < fst (K r)"
        using False by (auto simp: less_eq_prod_def)
      with "3.prems"(4) have "r' \<noteq> x" by auto
      with "3.prems"(3) have "r' \<in> set (y # xs)" by auto
      from "3.hyps"(2) [OF False s r this "3.prems"(4)] show ?thesis .
    qed
  qed
qed

lemma latest_rows_props:
  fixes rows :: "'f guild_row list"
  shows "distinct (map guild_row.guild_id (latest_rows rows))"
    and "set (latest_rows rows) \<subseteq> set rows"
    and "guild_row.guild_id ` set (latest_rows rows) = guild_row.guild_id ` set rows"
    and "\<forall>r\<in>set (latest_rows rows). \<forall>r'\<in>set rows.
          guild_row.guild_id r' = guild_row.guild_id r \<longrightarrow>
          timestamp_le (guild_row.capture_date r') (guild_row.capture_date r)"
proof -
  let ?K = "\<lambda>r::'f guild_row. (text_asc (guild_row.guild_id r), timestamp_desc (guild_row.capture_date r))"
  let ?f = "\<lambda>r. fst (?K r)"
  let ?s = "sort_key ?K rows"
  have eq: "latest_rows rows = distinct_on ?f ?s"
    unfolding latest_rows_def by (rule distinct_on_cong) (simp add: text_asc_inj)
  have s: "sorted (map ?K ?s)" by (rule sorted_sort_key)
  have "distinct (map ?f (distinct_on ?f ?s))"
    by (rule distinct_distinct_on) (rule sorted_fst [OF s])
  then have "distinct (map text_asc (map guild_row.guild_id (latest_rows rows)))"
    by (simp add: eq comp_def)
  then show "distinct (map guild_row.guild_id (latest_rows rows))"
    by (auto simp: distinct_map inj_on_def text_asc_inj)
  show sub: "set (latest_rows rows) \<subseteq> set rows"
    using set_distinct_on [of guild_row.guild_id ?s] by (simp add: latest_rows_def)
  show "guild_row.guild_id ` set (latest_rows rows) = guild_row.guild_id ` set rows"
    by (simp add: latest_rows_def image_distinct_on)
  show "\<forall>r\<in>set (latest_rows rows). \<forall>r'\<in>set rows.
          guild_row.guild_id r' = guild_row.guild_id r \<longrightarrow>
          timestamp_le (guild_row.capture_date r') (guild_row.capture_date r)"
  proof (intro ballI impI)
    fix r r' assume r: "r \<in> set (latest_rows rows)" and r': "r' \<in> set rows"
      and g: "guild_row.guild_id r' = guild_row.guild_id r"
    have "?K r \<le> ?K r'"
      by (rule distinct_on_first [OF s]) (use r r' g eq in simp_all)
    with g show "timestamp_le (guild_row.capture_date r') (guild_row.capture_date r)"
      by (simp add: timestamp_desc_le)
  qed
qed

lemma comprehension_map: "comprehension f (map g xs) = comprehension (\<lambda>x. f (g x)) xs"
  by (induction xs) (simp_all cong: sum.case_cong)

lemma comprehension_Inr:
  "comprehension f xs = Inr ys \<longleftrightarrow> list_all2 (\<lambda>x y. f x = Inr y) xs ys"
proof (induction xs arbitrary: ys)
  case Nil
  then show ?case by auto
next
  case (Cons x xs)
  show ?case
  proof (cases "f x")
    case (Inl e)
    then show ?thesis by (auto simp: list_all2_Cons1)
  next
    case fx: (Inr y)
    show ?thesis
    proof (cases "comprehension f xs")
      case (Inl e)
      with Cons [of "tl ys"] fx show ?thesis by (auto simp: list_all2_Cons1)
    next
      case (Inr zs)
      with Cons [of zs] Cons fx show ?thesis by (auto simp: list_all2_Cons1)
    qed
  qed
qed

section \<open>format\_json and the decoding rule\<close>

lemma format_items_Cons:
  "format_items ctx ((k, v) # r) = Inr out \<longleftrightarrow>
   (\<exists>v' d. out = (k, v') # d \<and>
      (if k \<in> set (json_keys ctx) then json_loads ctx v = Inr v' else v' = v) \<and>
      format_items ctx r = Inr d)"
proof (cases "k \<in> set (json_keys ctx)")
  case True
  then show ?thesis
    by (cases "json_loads ctx v"; cases "format_items ctx r") auto
next
  case False
  then show ?thesis
    by (cases "format_items ctx r") auto
qed

lemma format_items_decoding_rule:
  "format_items ctx r = Inr out \<longleftrightarrow> decoding_rule ctx r out"
proof (induction r arbitrary: out)
  case Nil
  then show ?case by (auto simp: decoding_rule_def)
next
  case (Cons kv r)
  obtain k v where kv: "kv = (k, v)" by (cases kv)
  have "decoding_rule ctx ((k, v) # r) out \<longleftrightarrow>
    (\<exists>v' d. out = (k, v') # d \<and>
      (if k \<in> set (json_keys ctx) then json_loads ctx v = Inr v' else v' = v) \<and>
      decoding_rule ctx r d)"
    unfolding decoding_rule_def list_all2_Cons1 decoded_field_def by auto
  then show ?case
    unfolding kv format_items_Cons by (simp only: Cons.IH)
qed


lemma format_json_Some:
  "format_json ctx (Some r) = Inr v \<longleftrightarrow> (\<exists>out. v = PyDict out \<and> decoding_rule ctx r out)"
proof -
  have "format_json ctx (Some r) = Inr v \<longleftrightarrow>
      (\<exists>out. v = PyDict out \<and> format_items ctx r = Inr out)"
    by (cases "format_items ctx r") (auto simp: format_json_def)
  then show ?thesis by (simp only: format_items_decoding_rule)
qed

lemma format_json_None: "format_json ctx None = Inr PyNone"
  by (simp add: format_json_def)

lemma decoding_rule_map_of:
  "decoding_rule ctx r out \<Longrightarrow> k \<notin> set (json_keys ctx) \<Longrightarrow> map_of out k = map_of r k"
  unfolding decoding_rule_def
proof (induction rule: list_all2_induct)
  case Nil
  then show ?case by simp
next
  case (Cons x xs y ys)
  then show ?case
    by (cases x; cases y) (auto simp: decoded_field_def split: if_splits)
qed

lemma formatted_rows:
  "comprehension (\<lambda>row. format_json ctx (Some row)) raws = Inr recs \<longleftrightarrow>
   list_all2 (\<lambda>raw rec. \<exists>out. rec = PyDict out \<and> decoding_rule ctx raw out) raws recs"
  by (simp add: comprehension_Inr format_json_Some)

lemma no_json_keys: "json_keys ctx = [] \<Longrightarrow> format_items ctx r = Inr r"
  by (induction r) auto


lemmas example_defs = example_pool_def empty_database_def example_guild_def example_player_def
  example_context_def example_loads_def

lemmas sql_defs = sql_text_def sql_float_def sql_integer_def sql_smallint_def
  sql_text_array_def sql_interval_def round_expr_def time_difference_expr_def
  array_length_def cardinality_def text_asc_def timestamp_desc_def timestamp_asc_def
  latest_rows_def where_guild_id_def order_by_capture_date_def fetchrow_def

lemmas op_defs = get_guilds_def get_guild_def get_guild_metrics_def get_guild_history_def
  get_id_name_autocomplete_def get_names_def get_players_def upsert_guild_info_def
  get_guild_discord_def get_guild_discord_query_def conn_or_pool_def format_json_def
  get_guilds_select_def get_guild_select_def get_guild_metrics_select_def
  get_guild_history_select_def get_id_name_autocomplete_select_def get_names_select_def
  get_players_select_def where_uuid_any_def id_name_def getitem_def returning_def

section \<open>The latest snapshot of one guild\<close>

text \<open>
  Claim C1. When the guilds table that the call reads (the caller's connection, else the
  pool) has a row with the given \<^verbatim>\<open>guild_id\<close>, \<^verbatim>\<open>get_guild\<close> returns \<^verbatim>\<open>format_json\<close> of the
  record that the select list builds from one of these rows, and no row with that \<^verbatim>\<open>guild_id\<close>
  has a \<^verbatim>\<open>capture_date\<close> after that row's: it is the maximum, in the order PostgreSQL sorts the
  column by.
\<close>

theorem get_guild_returns_latest_snapshot:
  assumes "\<exists>r\<in>set (guilds_table (conn_or_pool pool conn)). guild_row.guild_id r = Some g"
  shows "\<exists>r\<in>set (guilds_table (conn_or_pool pool conn)).
      guild_row.guild_id r = Some g \<and>
      (\<forall>r'\<in>set (guilds_table (conn_or_pool pool conn)). guild_row.guild_id r' = Some g \<longrightarrow>
         timestamp_le (guild_row.capture_date r') (guild_row.capture_date r)) \<and>
      get_guild ctx pool g conn = format_json ctx (Some (get_guild_select ctx r))"
proof -
  let ?rows = "guilds_table (conn_or_pool pool conn)"
  have "where_guild_id g ?rows \<noteq> []"
    using assms by (auto simp: where_guild_id_Nil)
  then have "latest_rows (where_guild_id g ?rows) \<noteq> []"
    by (simp add: latest_rows_Nil)
  then obtain h where h: "fetchrow (latest_rows (where_guild_id g ?rows)) = Some h"
    by (cases "latest_rows (where_guild_id g ?rows)") (auto simp: fetchrow_def)
  have "get_guild ctx pool g conn = format_json ctx (Some (get_guild_select ctx h))"
    by (simp add: get_guild_def fetchrow_map h)
  with fetchrow_latest_rows [OF h] show ?thesis by blast
qed

theorem get_guild_returns_latest_snapshot_witness:
  "(\<exists>r\<in>set (guilds_table (conn_or_pool example_pool None)). guild_row.guild_id r = Some ''G1'') \<and>
   (\<exists>r\<in>set (guilds_table (conn_or_pool example_pool None)).
      guild_row.guild_id r = Some ''G1'' \<and>
      (\<forall>r'\<in>set (guilds_table (conn_or_pool example_pool None)).
         guild_row.guild_id r' = Some ''G1'' \<longrightarrow>
         timestamp_le (guild_row.capture_date r') (guild_row.capture_date r)) \<and>
      get_guild (example_context []) example_pool ''G1'' None =
        format_json (example_context []) (Some (get_guild_select (example_context []) r))) \<and>
   get_guild (example_context []) example_pool ''G1'' None =
     Inr (PyDict
       [(''average_catacombs'', PyFloat 3), (''average_skills'', PyFloat 2),
        (''average_slayer'', PyFloat 4), (''average_weight'', PyFloat 1),
        (''guild_id'', PyStr ''G1''), (''guild_name'', PyStr ''Alpha2''),
        (''players'', PyList [PyStr ''u1'', PyStr ''u2'']),
        (''time_difference'', PyTimedelta 991), (''scammers'', PyInt 0)])"
proof -
  have h: "\<exists>r\<in>set (guilds_table (conn_or_pool example_pool None)).
      guild_row.guild_id r = Some ''G1''"
    by (simp add: conn_or_pool_def example_defs)
  have v: "get_guild (example_context []) example_pool ''G1'' None =
     Inr (PyDict
       [(''average_catacombs'', PyFloat 3), (''average_skills'', PyFloat 2),
        (''average_slayer'', PyFloat 4), (''average_weight'', PyFloat 1),
        (''guild_id'', PyStr ''G1''), (''guild_name'', PyStr ''Alpha2''),
        (''players'', PyList [PyStr ''u1'', PyStr ''u2'']),
        (''time_difference'', PyTimedelta 991), (''scammers'', PyInt 0)])"
    by (simp add: get_guild_def get_guild_select_def format_json_def conn_or_pool_def
        example_defs sql_defs)
  from h v get_guild_returns_latest_snapshot [OF h, of "example_context []"]
  show ?thesis by blast
qed

section \<open>Not found\<close>

text \<open>
  Claim C6. When no row of the guilds table has the given \<^verbatim>\<open>guild_id\<close>, \<^verbatim>\<open>get_guild\<close> returns
  \<^verbatim>\<open>None\<close>; when no row of \<^verbatim>\<open>guild_information\<close> has it, \<^verbatim>\<open>get_guild_discord\<close> returns \<^verbatim>\<open>None\<close>.
  Both are results (\<open>Inr\<close>), not exceptions, whatever \<open>json_keys\<close> holds.
\<close>

theorem not_found_returns_none:
  "((\<forall>r\<in>set (guilds_table (conn_or_pool pool conn)). guild_row.guild_id r \<noteq> Some g) \<longrightarrow>
      get_guild ctx pool g conn = Inr PyNone) \<and>
   ((\<forall>r\<in>set (guild_information_table (conn_or_pool pool conn)).
        guild_information_row.guild_id r \<noteq> Some g) \<longrightarrow>
      get_guild_discord pool g conn = Inr PyNone)"
proof (intro conjI impI)
  assume "\<forall>r\<in>set (guilds_table (conn_or_pool pool conn)). guild_row.guild_id r \<noteq> Some g"
  then have "where_guild_id g (guilds_table (conn_or_pool pool conn)) = []"
    by (simp add: where_guild_id_Nil)
  then show "get_guild ctx pool g conn = Inr PyNone"
    by (simp add: get_guild_def latest_rows_def fetchrow_def format_json_def)
next
  assume "\<forall>r\<in>set (guild_information_table (conn_or_pool pool conn)).
        guild_information_row.guild_id r \<noteq> Some g"
  then have "filter (\<lambda>r. guild_information_row.guild_id r = Some g)
      (guild_information_table (conn_or_pool pool conn)) = []"
    by (simp add: filter_empty_conv)
  then show "get_guild_discord pool g conn = Inr PyNone"
    by (simp add: get_guild_discord_def get_guild_discord_query_def fetchrow_def)
qed

theorem not_found_returns_none_witness:
  "\<not> (\<exists>r\<in>set (guilds_table (conn_or_pool example_pool None)).
        guild_row.guild_id r = Some ''G9'') \<and>
   get_guild (example_context [''guild_name'']) example_pool ''G9'' None = Inr PyNone \<and>
   \<not> (\<exists>r\<in>set (guild_information_table (conn_or_pool example_pool None)).
        guild_information_row.guild_id r = Some ''G9'') \<and>
   get_guild_discord example_pool ''G9'' None = Inr PyNone"
proof -
  have h1: "\<forall>r\<in>set (guilds_table (conn_or_pool example_pool None)).
      guild_row.guild_id r \<noteq> Some ''G9''"
    by (simp add: conn_or_pool_def example_defs)
  have h2: "\<forall>r\<in>set (guild_information_table (conn_or_pool example_pool None)).
      guild_information_row.guild_id r \<noteq> Some ''G9''"
    by (simp add: conn_or_pool_def example_defs)
  from h1 h2
    not_found_returns_none [of example_pool None "''G9''" "example_context [''guild_name'']"]
  show ?thesis by blast
qed

section \<open>One record per guild\<close>

text \<open>
  Claim C4. \<^verbatim>\<open>get_guilds\<close> is the comprehension of \<^verbatim>\<open>format_json\<close> over the select-list
  records of a list of rows of the guilds table in which no \<^verbatim>\<open>guild_id\<close> occurs twice, every
  \<^verbatim>\<open>guild_id\<close> of the table occurs, and each row has the latest \<^verbatim>\<open>capture_date\<close> among the
  table's rows with its \<^verbatim>\<open>guild_id\<close>. When it returns, the records correspond one to one, in
  order, to these rows.
\<close>

theorem get_guilds_one_latest_record_per_guild:
  "\<exists>rows.
     get_guilds ctx pool =
       comprehension (\<lambda>r. format_json ctx (Some (get_guilds_select ctx r))) rows \<and>
     (\<forall>recs. get_guilds ctx pool = Inr recs \<longrightarrow>
        list_all2 (\<lambda>r rec. format_json ctx (Some (get_guilds_select ctx r)) = Inr rec) rows recs) \<and>
     distinct (map guild_row.guild_id rows) \<and>
     guild_row.guild_id ` set rows = guild_row.guild_id ` set (guilds_table pool) \<and>
     (\<forall>r\<in>set rows. r \<in> set (guilds_table pool) \<and>
        (\<forall>r'\<in>set (guilds_table pool). guild_row.guild_id r' = guild_row.guild_id r \<longrightarrow>
           timestamp_le (guild_row.capture_date r') (guild_row.capture_date r)))"
proof -
  let ?rows = "latest_rows (guilds_table pool)"
  have eq: "get_guilds ctx pool =
      comprehension (\<lambda>r. format_json ctx (Some (get_guilds_select ctx r))) ?rows"
    by (simp add: get_guilds_def comprehension_map)
  then have "\<forall>recs. get_guilds ctx pool = Inr recs \<longrightarrow>
      list_all2 (\<lambda>r rec. format_json ctx (Some (get_guilds_select ctx r)) = Inr rec) ?rows recs"
    by (simp add: comprehension_Inr)
  with eq latest_rows_props [of "guilds_table pool"] show ?thesis
    by (intro exI [of _ ?rows]) blast
qed

theorem get_guilds_one_latest_record_per_guild_witness:
  "(\<exists>rows.
     get_guilds (example_context []) example_pool =
       comprehension
         (\<lambda>r. format_json (example_context []) (Some (get_guilds_select (example_context []) r)))
         rows \<and>
     (\<forall>recs. get_guilds (example_context []) example_pool = Inr recs \<longrightarrow>
        list_all2
          (\<lambda>r rec. format_json (example_context [])
             (Some (get_guilds_select (example_context []) r)) = Inr rec) rows recs) \<and>
     distinct (map guild_row.guild_id rows) \<and>
     guild_row.guild_id ` set rows = guild_row.guild_id ` set (guilds_table example_pool) \<and>
     (\<forall>r\<in>set rows. r \<in> set (guilds_table example_pool) \<and>
        (\<forall>r'\<in>set (guilds_table example_pool).
           guild_row.guild_id r' = guild_row.guild_id r \<longrightarrow>
           timestamp_le (guild_row.capture_date r') (guild_row.capture_date r)))) \<and>
   get_guilds (example_context []) example_pool =
     Inr [PyDict
       [(''average_catacombs'', PyFloat 3), (''average_skills'', PyFloat 2),
        (''average_slayer'', PyFloat 4), (''average_weight'', PyFloat 1),
        (''guild_id'', PyStr ''G1''), (''guild_name'', PyStr ''Alpha2''),
        (''players'', PyInt 2), (''time_difference'', PyTimedelta 991),
        (''scammers'', PyInt 0), (''position_change'', PyInt 0)],
      PyDict
       [(''average_catacombs'', PyFloat 3), (''average_skills'', PyFloat 2),
        (''average_slayer'', PyFloat 4), (''average_weight'', PyFloat 1),
        (''guild_id'', PyStr ''G2''), (''guild_name'', PyStr ''7''),
        (''players'', PyNone), (''time_difference'', PyTimedelta 993),
        (''scammers'', PyInt 0), (''position_change'', PyInt 0)]]"
proof -
  have "get_guilds (example_context []) example_pool =
     Inr [PyDict
       [(''average_catacombs'', PyFloat 3), (''average_skills'', PyFloat 2),
        (''average_slayer'', PyFloat 4), (''average_weight'', PyFloat 1),
        (''guild_id'', PyStr ''G1''), (''guild_name'', PyStr ''Alpha2''),
        (''players'', PyInt 2), (''time_difference'', PyTimedelta 991),
        (''scammers'', PyInt 0), (''position_change'', PyInt 0)],
      PyDict
       [(''average_catacombs'', PyFloat 3), (''average_skills'', PyFloat 2),
        (''average_slayer'', PyFloat 4), (''average_weight'', PyFloat 1),
        (''guild_id'', PyStr ''G2''), (''guild_name'', PyStr ''7''),
        (''players'', PyNone), (''time_difference'', PyTimedelta 993),
        (''scammers'', PyInt 0), (''position_change'', PyInt 0)]]"
    by (simp add: get_guilds_def get_guilds_select_def format_json_def example_defs sql_defs)
  with get_guilds_one_latest_record_per_guild [of "example_context []" example_pool]
  show ?thesis by (rule conjI)
qed

section \<open>Histories, oldest first\<close>

lemma sorted_order_by_capture_date:
  "sorted_wrt timestamp_le (map guild_row.capture_date (order_by_capture_date rows))"
proof -
  have "sorted (map (\<lambda>r. timestamp_asc (guild_row.capture_date r)) (order_by_capture_date rows))"
    unfolding order_by_capture_date_def by (rule sorted_sort_key)
  then show ?thesis
    by (simp add: sorted_wrt_map timestamp_asc_le)
qed

lemma set_order_by_capture_date: "set (order_by_capture_date rows) = set rows"
  by (simp add: order_by_capture_date_def)

lemma comprehension_unless_empty:
  "(if xs \<noteq> [] then comprehension f xs else Inr []) = comprehension f xs"
  by (cases xs) simp_all


text \<open>
  Claim C8. \<^verbatim>\<open>get_guild_metrics\<close> and \<^verbatim>\<open>get_guild_history\<close> are the comprehensions of
  \<^verbatim>\<open>format_json\<close> over the select-list records of the guild's rows taken in non-decreasing
  order of \<^verbatim>\<open>capture_date\<close> (the order PostgreSQL sorts the column by), so the returned records
  follow that order; when the guild has no row both return the empty list.
\<close>

theorem metrics_and_history_oldest_first:
  "\<exists>rows.
     set rows = {r \<in> set (guilds_table pool). guild_row.guild_id r = Some g} \<and>
     sorted_wrt timestamp_le (map guild_row.capture_date rows) \<and>
     get_guild_metrics ctx pool g =
       comprehension (\<lambda>r. format_json ctx (Some (get_guild_metrics_select ctx r))) rows \<and>
     get_guild_history ctx pool g =
       comprehension (\<lambda>r. format_json ctx (Some (get_guild_history_select ctx r))) rows \<and>
     (rows = [] \<longrightarrow>
        get_guild_metrics ctx pool g = Inr [] \<and> get_guild_history ctx pool g = Inr [])"
proof -
  let ?rows = "order_by_capture_date (where_guild_id g (guilds_table pool))"
  have "set ?rows = {r \<in> set (guilds_table pool). guild_row.guild_id r = Some g}"
    by (simp add: set_order_by_capture_date where_guild_id_def)
  moreover have "sorted_wrt timestamp_le (map guild_row.capture_date ?rows)"
    by (rule sorted_order_by_capture_date)
  moreover have m: "get_guild_metrics ctx pool g =
      comprehension (\<lambda>r. format_json ctx (Some (get_guild_metrics_select ctx r))) ?rows"
    by (simp add: get_guild_metrics_def comprehension_unless_empty comprehension_map)
  moreover have h: "get_guild_history ctx pool g =
      comprehension (\<lambda>r. format_json ctx (Some (get_guild_history_select ctx r))) ?rows"
    by (simp add: get_guild_history_def comprehension_unless_empty comprehension_map)
  moreover have "?rows = [] \<longrightarrow>
      get_guild_metrics ctx pool g = Inr [] \<and> get_guild_history ctx pool g = Inr []"
    using m h by simp
  ultimately show ?thesis by (intro exI [of _ ?rows]) blast
qed

theorem metrics_and_history_oldest_first_witness:
  "(\<exists>rows.
     set rows = {r \<in> set (guilds_table example_pool). guild_row.guild_id r = Some ''G1''} \<and>
     sorted_wrt timestamp_le (map guild_row.capture_date rows) \<and>
     get_guild_metrics (example_context []) example_pool ''G1'' =
       comprehension
         (\<lambda>r. format_json (example_context [])
            (Some (get_guild_metrics_select (example_context []) r))) rows \<and>
     get_guild_history (example_context []) example_pool ''G1'' =
       comprehension
         (\<lambda>r. format_json (example_context [])
            (Some (get_guild_history_select (example_context []) r))) rows \<and>
     (rows = [] \<longrightarrow>
        get_guild_metrics (example_context []) example_pool ''G1'' = Inr [] \<and>
        get_guild_history (example_context []) example_pool ''G1'' = Inr [])) \<and>
   get_guild_history (example_context []) example_pool ''G1'' =
     Inr [PyDict [(''players'', PyList [PyStr ''u1'']), (''time_difference'', PyTimedelta 995)],
          PyDict [(''players'', PyList [PyStr ''u1'', PyStr ''u2'']),
                  (''time_difference'', PyTimedelta 991)]] \<and>
   get_guild_metrics (example_context []) example_pool ''G9'' = Inr [] \<and>
   get_guild_history (example_context []) example_pool ''G9'' = Inr []"
proof -
  have "get_guild_history (example_context []) example_pool ''G1'' =
     Inr [PyDict [(''players'', PyList [PyStr ''u1'']), (''time_difference'', PyTimedelta 995)],
          PyDict [(''players'', PyList [PyStr ''u1'', PyStr ''u2'']),
                  (''time_difference'', PyTimedelta 991)]]"
    by (simp add: get_guild_history_def get_guild_history_select_def format_json_def
        example_defs sql_defs)
  moreover have "get_guild_metrics (example_context []) example_pool ''G9'' = Inr []"
    by (simp add: get_guild_metrics_def example_defs sql_defs)
  moreover have "get_guild_history (example_context []) example_pool ''G9'' = Inr []"
    by (simp add: get_guild_history_def example_defs sql_defs)
  moreover note metrics_and_history_oldest_first [of example_pool "''G1''" "example_context []"]
  ultimately show ?thesis by (intro conjI)
qed

section \<open>Writing and reading the discord of a guild\<close>

lemma filter_insert_on_conflict_update:
  "filter (\<lambda>r. guild_information_row.guild_id r = Some g) (insert_on_conflict_update g d rows) =
   (case filter (\<lambda>r. guild_information_row.guild_id r = Some g) rows of
      [] \<Rightarrow> [\<lparr>guild_information_row.guild_id = Some g, discord = Some d\<rparr>]
    | r # rs \<Rightarrow> r\<lparr>discord := Some d\<rparr> # rs)"
  by (induction rows) simp_all

lemma guild_ids_insert_on_conflict_update:
  "map guild_information_row.guild_id (insert_on_conflict_update g d rows) =
   (if Some g \<in> set (map guild_information_row.guild_id rows)
    then map guild_information_row.guild_id rows
    else map guild_information_row.guild_id rows @ [Some g])"
  by (induction rows) auto

lemma unique_guild_id_insert_on_conflict_update:
  "unique_guild_id rows \<Longrightarrow> unique_guild_id (insert_on_conflict_update g d rows)"
  by (auto simp: unique_guild_id_def guild_ids_insert_on_conflict_update)

lemma unique_guild_id_filter:
  "unique_guild_id rows \<Longrightarrow>
   length (filter (\<lambda>r. guild_information_row.guild_id r = Some g) rows) \<le> 1"
proof (induction rows)
  case Nil
  then show ?case by simp
next
  case (Cons r rows)
  show ?case
  proof (cases "guild_information_row.guild_id r = Some g")
    case True
    with Cons.prems have "\<forall>x\<in>set rows. guild_information_row.guild_id x \<noteq> Some g"
      by (force simp: unique_guild_id_def)
    then have "filter (\<lambda>r. guild_information_row.guild_id r = Some g) rows = []"
      by (simp add: filter_empty_conv)
    with True show ?thesis by simp
  next
    case False
    with Cons show ?thesis by (auto simp: unique_guild_id_def split: if_splits)
  qed
qed

lemma upsert_once:
  assumes "unique_guild_id rows"
  shows "\<exists>r. filter (\<lambda>r. guild_information_row.guild_id r = Some g)
           (insert_on_conflict_update g d rows) = [r] \<and>
         guild_information_row.guild_id r = Some g \<and> discord r = Some d"
proof (cases "filter (\<lambda>r. guild_information_row.guild_id r = Some g) rows")
  case Nil
  then show ?thesis by (simp add: filter_insert_on_conflict_update)
next
  case (Cons r rs)
  with unique_guild_id_filter [OF assms, of g] have rs: "rs = []" by simp
  have "r \<in> set (filter (\<lambda>r. guild_information_row.guild_id r = Some g) rows)"
    using Cons by simp
  then have "guild_information_row.guild_id r = Some g" by simp
  with Cons rs show ?thesis by (simp add: filter_insert_on_conflict_update)
qed

lemma insert_on_conflict_update_twice:
  "insert_on_conflict_update g d (insert_on_conflict_update g d rows) =
   insert_on_conflict_update g d rows"
  by (induction rows) simp_all

text \<open>
  Claim C7. On a \<^verbatim>\<open>guild_information\<close> table that satisfies the unique index of its
  \<^verbatim>\<open>guild_id\<close>, two calls of \<^verbatim>\<open>upsert_guild_info\<close> for one \<^verbatim>\<open>guild_id\<close> leave exactly one row
  with that \<^verbatim>\<open>guild_id\<close>; its \<^verbatim>\<open>discord\<close> is the value of the second call, which
  \<^verbatim>\<open>get_guild_discord\<close> then returns; the table still satisfies the index; and a second call
  with the same value changes nothing.
\<close>

theorem upsert_guild_info_last_write_wins:
  assumes "unique_guild_id (guild_information_table pool)"
  shows "\<exists>r. filter (\<lambda>r. guild_information_row.guild_id r = Some g)
        (guild_information_table (upsert_guild_info (upsert_guild_info pool g d1) g d2)) = [r] \<and>
      guild_information_row.guild_id r = Some g \<and> discord r = Some d2 \<and>
      get_guild_discord (upsert_guild_info (upsert_guild_info pool g d1) g d2) g None =
        Inr (PyStr d2) \<and>
      unique_guild_id
        (guild_information_table (upsert_guild_info (upsert_guild_info pool g d1) g d2)) \<and>
      upsert_guild_info (upsert_guild_info pool g d2) g d2 = upsert_guild_info pool g d2"
proof -
  let ?t1 = "insert_on_conflict_update g d1 (guild_information_table pool)"
  let ?t2 = "insert_on_conflict_update g d2 ?t1"
  have t: "guild_information_table (upsert_guild_info (upsert_guild_info pool g d1) g d2) = ?t2"
    by (simp add: upsert_guild_info_def)
  have u1: "unique_guild_id ?t1"
    by (rule unique_guild_id_insert_on_conflict_update [OF assms])
  then have u2: "unique_guild_id ?t2"
    by (rule unique_guild_id_insert_on_conflict_update)
  from upsert_once [OF u1, of g d2] obtain r where
    r: "filter (\<lambda>r. guild_information_row.guild_id r = Some g) ?t2 = [r]"
      "guild_information_row.guild_id r = Some g" "discord r = Some d2"
    by blast
  have "get_guild_discord (upsert_guild_info (upsert_guild_info pool g d1) g d2) g None =
      Inr (PyStr d2)"
    by (simp add: get_guild_discord_def get_guild_discord_query_def conn_or_pool_def t r
        fetchrow_def getitem_def sql_text_def)
  moreover have "upsert_guild_info (upsert_guild_info pool g d2) g d2 = upsert_guild_info pool g d2"
    by (simp add: upsert_guild_info_def insert_on_conflict_update_twice)
  ultimately show ?thesis using r u2 t by auto
qed

theorem upsert_guild_info_last_write_wins_witness:
  "unique_guild_id (guild_information_table example_pool) \<and>
   (\<exists>r. filter (\<lambda>r. guild_information_row.guild_id r = Some ''G1'')
        (guild_information_table
          (upsert_guild_info (upsert_guild_info example_pool ''G1'' ''D1'') ''G1'' ''D2'')) = [r] \<and>
      guild_information_row.guild_id r = Some ''G1'' \<and> discord r = Some ''D2'' \<and>
      get_guild_discord
        (upsert_guild_info (upsert_guild_info example_pool ''G1'' ''D1'') ''G1'' ''D2'')
        ''G1'' None = Inr (PyStr ''D2'') \<and>
      unique_guild_id
        (guild_information_table
          (upsert_guild_info (upsert_guild_info example_pool ''G1'' ''D1'') ''G1'' ''D2'')) \<and>
      upsert_guild_info (upsert_guild_info example_pool ''G1'' ''D2'') ''G1'' ''D2'' =
        upsert_guild_info example_pool ''G1'' ''D2'')"
proof -
  have h: "unique_guild_id (guild_information_table example_pool)"
    by (simp add: unique_guild_id_def example_defs)
  from h upsert_guild_info_last_write_wins [OF h, of "''G1''" "''D1''" "''D2''"]
  show ?thesis by (rule conjI)
qed

section \<open>The two member counts\<close>

lemma formatted_field:
  assumes "format_json ctx (Some raw) = Inr rec" "k \<notin> set (json_keys ctx)"
  shows "\<exists>d. rec = PyDict d \<and> map_of d k = map_of raw k"
  using assms by (auto simp: format_json_Some dest: decoding_rule_map_of)

lemma formatted_rows_field:
  assumes "comprehension (\<lambda>row. format_json ctx (Some row)) (map sel rows) = Inr recs"
    and "k \<notin> set (json_keys ctx)"
    and "\<And>r. map_of (sel r) k = Some (val r)"
  shows "list_all2 (\<lambda>r rec. \<exists>d. rec = PyDict d \<and> map_of d k = Some (val r)) rows recs"
proof -
  have "list_all2 (\<lambda>r rec. format_json ctx (Some (sel r)) = Inr rec) rows recs"
    using assms(1) by (simp add: comprehension_map comprehension_Inr)
  then show ?thesis
  proof (rule list_all2_mono)
    fix r rec assume "format_json ctx (Some (sel r)) = Inr rec"
    from formatted_field [OF this assms(2)] assms(3) [of r]
    show "\<exists>d. rec = PyDict d \<and> map_of d k = Some (val r)" by auto
  qed
qed

text \<open>
  Claim C10. With \<^verbatim>\<open>players\<close> and \<^verbatim>\<open>member_count\<close> not among the \<open>json_keys\<close>: in every
  record that \<^verbatim>\<open>get_guilds\<close> returns the field \<^verbatim>\<open>players\<close> is \<^verbatim>\<open>None\<close> when the row's array has no
  element, and in every record that \<^verbatim>\<open>get_guild_metrics\<close> returns the field \<^verbatim>\<open>member_count\<close> is
  0 for such a row; for an array with elements both fields are its length (and both are \<^verbatim>\<open>None\<close>
  for a null array).
\<close>

theorem member_counts_differ_on_empty_array:
  assumes "''players'' \<notin> set (json_keys ctx)" and "''member_count'' \<notin> set (json_keys ctx)"
  shows "(get_guilds ctx pool = Inr recs \<longrightarrow>
      list_all2
        (\<lambda>r rec. \<exists>d. rec = PyDict d \<and>
           map_of d ''players'' =
             Some (case players r of None \<Rightarrow> PyNone | Some [] \<Rightarrow> PyNone
                   | Some (p # ps) \<Rightarrow> PyInt (int (length (p # ps)))))
        (latest_rows (guilds_table pool)) recs) \<and>
    (get_guild_metrics ctx pool g = Inr ms \<longrightarrow>
      list_all2
        (\<lambda>r m. \<exists>d. m = PyDict d \<and>
           map_of d ''member_count'' =
             Some (case players r of None \<Rightarrow> PyNone | Some [] \<Rightarrow> PyInt 0
                   | Some (p # ps) \<Rightarrow> PyInt (int (length (p # ps)))))
        (order_by_capture_date (where_guild_id g (guilds_table pool))) ms)"
proof (intro conjI impI)
  assume "get_guilds ctx pool = Inr recs"
  then have "comprehension (\<lambda>row. format_json ctx (Some row))
      (map (get_guilds_select ctx) (latest_rows (guilds_table pool))) = Inr recs"
    by (simp add: get_guilds_def)
  then show "list_all2
        (\<lambda>r rec. \<exists>d. rec = PyDict d \<and>
           map_of d ''players'' =
             Some (case players r of None \<Rightarrow> PyNone | Some [] \<Rightarrow> PyNone
                   | Some (p # ps) \<Rightarrow> PyInt (int (length (p # ps)))))
        (latest_rows (guilds_table pool)) recs"
    using assms(1)
    by (rule formatted_rows_field)
      (simp add: get_guilds_select_def sql_integer_def array_length_def
        split: option.splits list.splits)
next
  assume "get_guild_metrics ctx pool g = Inr ms"
  then have "comprehension (\<lambda>row. format_json ctx (Some row))
      (map (get_guild_metrics_select ctx)
        (order_by_capture_date (where_guild_id g (guilds_table pool)))) = Inr ms"
    by (simp add: get_guild_metrics_def comprehension_unless_empty)
  then show "list_all2
        (\<lambda>r m. \<exists>d. m = PyDict d \<and>
           map_of d ''member_count'' =
             Some (case players r of None \<Rightarrow> PyNone | Some [] \<Rightarrow> PyInt 0
                   | Some (p # ps) \<Rightarrow> PyInt (int (length (p # ps)))))
        (order_by_capture_date (where_guild_id g (guilds_table pool))) ms"
    using assms(2)
    by (rule formatted_rows_field)
      (simp add: get_guild_metrics_select_def sql_integer_def cardinality_def
        split: option.splits list.splits)
qed

theorem member_counts_differ_on_empty_array_witness:
  "''players'' \<notin> set (json_keys (example_context [])) \<and>
   ''member_count'' \<notin> set (json_keys (example_context [])) \<and>
   get_guilds (example_context []) example_pool =
     Inr [PyDict
       [(''average_catacombs'', PyFloat (3::rat)), (''average_skills'', PyFloat 2),
        (''average_slayer'', PyFloat 4), (''average_weight'', PyFloat 1),
        (''guild_id'', PyStr ''G1''), (''guild_name'', PyStr ''Alpha2''),
        (''players'', PyInt 2), (''time_difference'', PyTimedelta 991),
        (''scammers'', PyInt 0), (''position_change'', PyInt 0)],
      PyDict
       [(''average_catacombs'', PyFloat (3::rat)), (''average_skills'', PyFloat 2),
        (''average_slayer'', PyFloat 4), (''average_weight'', PyFloat 1),
        (''guild_id'', PyStr ''G2''), (''guild_name'', PyStr ''7''),
        (''players'', PyNone), (''time_difference'', PyTimedelta 993),
        (''scammers'', PyInt 0), (''position_change'', PyInt 0)]] \<and>
   get_guild_metrics (example_context []) example_pool ''G2'' =
     Inr [PyDict
       [(''average_weight'', PyFloat (1::rat)), (''average_skills'', PyFloat 2),
        (''average_catacombs'', PyFloat 3), (''average_slayer'', PyFloat 4),
        (''member_count'', PyInt 0), (''time_difference'', PyTimedelta 993)]] \<and>
   list_all2
     (\<lambda>r m. \<exists>d. m = PyDict d \<and>
        map_of d ''member_count'' =
          Some (case players r of None \<Rightarrow> PyNone | Some [] \<Rightarrow> PyInt 0
                | Some (p # ps) \<Rightarrow> PyInt (int (length (p # ps)))))
     (order_by_capture_date (where_guild_id ''G2'' (guilds_table example_pool)))
     [PyDict
       [(''average_weight'', PyFloat (1::rat)), (''average_skills'', PyFloat 2),
        (''average_catacombs'', PyFloat 3), (''average_slayer'', PyFloat 4),
        (''member_count'', PyInt 0), (''time_difference'', PyTimedelta 993)]] \<and>
   list_all2
     (\<lambda>r rec. \<exists>d. rec = PyDict d \<and>
        map_of d ''players'' =
          Some (case players r of None \<Rightarrow> PyNone | Some [] \<Rightarrow> PyNone
                | Some (p # ps) \<Rightarrow> PyInt (int (length (p # ps)))))
     (latest_rows (guilds_table example_pool))
     [PyDict
       [(''average_catacombs'', PyFloat (3::rat)), (''average_skills'', PyFloat 2),
        (''average_slayer'', PyFloat 4), (''average_weight'', PyFloat 1),
        (''guild_id'', PyStr ''G1''), (''guild_name'', PyStr ''Alpha2''),
        (''players'', PyInt 2), (''time_difference'', PyTimedelta 991),
        (''scammers'', PyInt 0), (''position_change'', PyInt 0)],
      PyDict
       [(''average_catacombs'', PyFloat (3::rat)), (''average_skills'', PyFloat 2),
        (''average_slayer'', PyFloat 4), (''average_weight'', PyFloat 1),
        (''guild_id'', PyStr ''G2''), (''guild_name'', PyStr ''7''),
        (''players'', PyNone), (''time_difference'', PyTimedelta 993),
        (''scammers'', PyInt 0), (''position_change'', PyInt 0)]]"
proof -
  have k1: "''players'' \<notin> set (json_keys (example_context []))"
    and k2: "''member_count'' \<notin> set (json_keys (example_context []))"
    by (simp_all add: example_context_def)
  have g: "get_guilds (example_context []) example_pool =
     Inr [PyDict
       [(''average_catacombs'', PyFloat (3::rat)), (''average_skills'', PyFloat 2),
        (''average_slayer'', PyFloat 4), (''average_weight'', PyFloat 1),
        (''guild_id'', PyStr ''G1''), (''guild_name'', PyStr ''Alpha2''),
        (''players'', PyInt 2), (''time_difference'', PyTimedelta 991),
        (''scammers'', PyInt 0), (''position_change'', PyInt 0)],
      PyDict
       [(''average_catacombs'', PyFloat (3::rat)), (''average_skills'', PyFloat 2),
        (''average_slayer'', PyFloat 4), (''average_weight'', PyFloat 1),
        (''guild_id'', PyStr ''G2''), (''guild_name'', PyStr ''7''),
        (''players'', PyNone), (''time_difference'', PyTimedelta 993),
        (''scammers'', PyInt 0), (''position_change'', PyInt 0)]]"
    by (simp add: op_defs example_defs sql_defs)
  have m: "get_guild_metrics (example_context []) example_pool ''G2'' =
     Inr [PyDict
       [(''average_weight'', PyFloat (1::rat)), (''average_skills'', PyFloat 2),
        (''average_catacombs'', PyFloat 3), (''average_slayer'', PyFloat 4),
        (''member_count'', PyInt 0), (''time_difference'', PyTimedelta 993)]]"
    by (simp add: op_defs example_defs sql_defs)
  note t = member_counts_differ_on_empty_array [OF k1 k2, of example_pool _ "''G2''"]
  note a = mp [OF t [THEN conjunct1] g]
  note b = mp [OF t [THEN conjunct2] m]
  show ?thesis by (intro conjI k1 k2 g m a b)
qed

text \<open>
  Claim C5. The guild \<^verbatim>\<open>G2\<close> of the example has one snapshot, whose \<^verbatim>\<open>players\<close> array is empty
  (\<^verbatim>\<open>get_guild\<close> returns it as the empty list). The record that \<^verbatim>\<open>get_guilds\<close> returns for it
  has \<^verbatim>\<open>players\<close> \<^verbatim>\<open>None\<close>, not the count 0.
\<close>

theorem get_guilds_players_of_empty_array:
  "get_guilds (example_context []) example_pool =
     Inr [PyDict
       [(''average_catacombs'', PyFloat 3), (''average_skills'', PyFloat 2),
        (''average_slayer'', PyFloat 4), (''average_weight'', PyFloat 1),
        (''guild_id'', PyStr ''G1''), (''guild_name'', PyStr ''Alpha2''),
        (''players'', PyInt 2), (''time_difference'', PyTimedelta 991),
        (''scammers'', PyInt 0), (''position_change'', PyInt 0)],
      PyDict
       [(''average_catacombs'', PyFloat 3), (''average_skills'', PyFloat 2),
        (''average_slayer'', PyFloat 4), (''average_weight'', PyFloat 1),
        (''guild_id'', PyStr ''G2''), (''guild_name'', PyStr ''7''),
        (''players'', PyNone), (''time_difference'', PyTimedelta 993),
        (''scammers'', PyInt 0), (''position_change'', PyInt 0)]] \<and>
   get_guild (example_context []) example_pool ''G2'' None =
     Inr (PyDict
       [(''average_catacombs'', PyFloat 3), (''average_skills'', PyFloat 2),
        (''average_slayer'', PyFloat 4), (''average_weight'', PyFloat 1),
        (''guild_id'', PyStr ''G2''), (''guild_name'', PyStr ''7''),
        (''players'', PyList []), (''time_difference'', PyTimedelta 993),
        (''scammers'', PyInt 0)])"
  by (simp add: op_defs example_defs sql_defs)

section \<open>Where the decoding rule applies\<close>

lemma comprehension_total:
  "(\<And>x. f x = Inr (g x)) \<Longrightarrow> comprehension f xs = Inr (map g xs)"
  by (induction xs) simp_all

lemma get_id_name_autocomplete_raw:
  "get_id_name_autocomplete pool =
     Inr (map (\<lambda>r. PyDict [(''id'', sql_text (guild_row.guild_id r)),
                            (''name'', sql_text (guild_name r))])
            (latest_rows (guilds_table pool)))"
  unfolding get_id_name_autocomplete_def Let_def comprehension_map
  by (rule comprehension_total)
    (simp add: id_name_def getitem_def get_id_name_autocomplete_select_def)

lemma get_guild_discord_raw:
  "get_guild_discord pool g conn =
     Inr (case fetchrow (filter (\<lambda>r. guild_information_row.guild_id r = Some g)
                 (guild_information_table (conn_or_pool pool conn))) of
            None \<Rightarrow> PyNone | Some r \<Rightarrow> sql_text (discord r))"
  by (simp add: get_guild_discord_def get_guild_discord_query_def fetchrow_map getitem_def
      split: option.splits)

lemma set_dict_set: "set (dict_set d k v) \<subseteq> insert (k, v) (set d)"
  by (induction d) (auto split: if_splits)

lemma names_dict_raw:
  fixes rows :: "'f player_row list"
  assumes "\<forall>r\<in>set rows. uuid r \<noteq> None"
  shows "\<exists>d'. names_dict d (map get_names_select rows) = Inr (PyDict d') \<and>
      set d' \<subseteq> set d \<union> {(u, sql_text (name r)) | u r. r \<in> set rows \<and> uuid r = Some u}"
  using assms
proof (induction rows arbitrary: d)
  case Nil
  then show ?case by simp
next
  case (Cons r rows)
  from Cons.prems obtain u where u: "uuid r = Some u" by auto
  from Cons.prems have "\<forall>r\<in>set rows. uuid r \<noteq> None" by simp
  from Cons.IH [OF this, of "dict_set d u (sql_text (name r))"]
  obtain d' where d': "names_dict (dict_set d u (sql_text (name r))) (map get_names_select rows)
        = Inr (PyDict d')"
    and sub: "set d' \<subseteq> set (dict_set d u (sql_text (name r))) \<union>
        {(u, sql_text (name r)) | u r. r \<in> set rows \<and> uuid r = Some u}"
    by blast
  have "names_dict d (map get_names_select (r # rows)) = Inr (PyDict d')"
    using d' by (simp add: get_names_select_def getitem_def u sql_text_def)
  moreover have "set d' \<subseteq> set d \<union>
      {(u, sql_text (name r')) | u r'. r' \<in> set (r # rows) \<and> uuid r' = Some u}"
  proof
    fix e assume "e \<in> set d'"
    with sub set_dict_set [of d u "sql_text (name r)"]
    consider "e = (u, sql_text (name r))" | "e \<in> set d"
      | "e \<in> {(u, sql_text (name r)) | u r. r \<in> set rows \<and> uuid r = Some u}"
      by blast
    then show "e \<in> set d \<union>
      {(u, sql_text (name r')) | u r'. r' \<in> set (r # rows) \<and> uuid r' = Some u}"
    proof cases
      case 1
      with u show ?thesis by auto
    next
      case 2
      then show ?thesis by simp
    next
      case 3
      then show ?thesis by auto
    qed
  qed
  ultimately show ?case by blast
qed

lemma get_names_raw:
  "\<exists>d. get_names pool uuids = Inr (PyDict d) \<and>
     set d \<subseteq> {(u, sql_text (name r)) | u r.
                 r \<in> set (players_table pool) \<and> uuid r = Some u \<and> u \<in> set uuids}"
proof -
  let ?rows = "where_uuid_any uuids (players_table pool)"
  have "\<forall>r\<in>set ?rows. uuid r \<noteq> None"
    by (auto simp: where_uuid_any_def split: option.splits)
  from names_dict_raw [OF this, of "[]"] obtain d where
    d: "names_dict [] (map get_names_select ?rows) = Inr (PyDict d)"
    and sub: "set d \<subseteq> {(u, sql_text (name r)) | u r. r \<in> set ?rows \<and> uuid r = Some u}"
    by auto
  have "get_names pool uuids = Inr (PyDict d)"
    using d by (simp add: get_names_def)
  moreover have "set d \<subseteq> {(u, sql_text (name r)) | u r.
                 r \<in> set (players_table pool) \<and> uuid r = Some u \<and> u \<in> set uuids}"
  proof
    fix e assume "e \<in> set d"
    with sub obtain u r where "e = (u, sql_text (name r))" "r \<in> set ?rows" "uuid r = Some u"
      by blast
    then show "e \<in> {(u, sql_text (name r)) | u r.
                 r \<in> set (players_table pool) \<and> uuid r = Some u \<and> u \<in> set uuids}"
      by (auto simp: where_uuid_any_def)
  qed
  ultimately show ?thesis by blast
qed

lemma get_guild_decoded:
  "get_guild ctx pool g conn = Inr v \<longleftrightarrow>
     (case fetchrow (map (get_guild_select ctx)
             (latest_rows (where_guild_id g (guilds_table (conn_or_pool pool conn))))) of
        None \<Rightarrow> v = PyNone
      | Some raw \<Rightarrow> \<exists>out. v = PyDict out \<and> decoding_rule ctx raw out)"
  by (auto simp: get_guild_def format_json_None format_json_Some split: option.splits)

text \<open>
  Claim C2, as the code has it. The five operations that call \<^verbatim>\<open>format_json\<close>
  (\<^verbatim>\<open>get_guilds\<close>, \<^verbatim>\<open>get_guild\<close>, \<^verbatim>\<open>get_guild_metrics\<close>, \<^verbatim>\<open>get_guild_history\<close>, \<^verbatim>\<open>get_players\<close>)
  return exactly the records that the decoding rule makes of the rows of their statement (and
  raise when a designated field does not decode). \<^verbatim>\<open>get_id_name_autocomplete\<close>, \<^verbatim>\<open>get_names\<close>
  and \<^verbatim>\<open>get_guild_discord\<close> return the stored texts themselves, whatever \<open>json_keys\<close> holds.
\<close>

theorem decoding_rule_where_format_json_is_called:
  "(get_guilds ctx pool = Inr recs \<longleftrightarrow>
      list_all2 (\<lambda>raw rec. \<exists>out. rec = PyDict out \<and> decoding_rule ctx raw out)
        (map (get_guilds_select ctx) (latest_rows (guilds_table pool))) recs) \<and>
   (get_guild ctx pool g conn = Inr v \<longleftrightarrow>
      (case fetchrow (map (get_guild_select ctx)
              (latest_rows (where_guild_id g (guilds_table (conn_or_pool pool conn))))) of
         None \<Rightarrow> v = PyNone
       | Some raw \<Rightarrow> \<exists>out. v = PyDict out \<and> decoding_rule ctx raw out)) \<and>
   (get_guild_metrics ctx pool g = Inr recs \<longleftrightarrow>
      list_all2 (\<lambda>raw rec. \<exists>out. rec = PyDict out \<and> decoding_rule ctx raw out)
        (map (get_guild_metrics_select ctx)
          (order_by_capture_date (where_guild_id g (guilds_table pool)))) recs) \<and>
   (get_guild_history ctx pool g = Inr recs \<longleftrightarrow>
      list_all2 (\<lambda>raw rec. \<exists>out. rec = PyDict out \<and> decoding_rule ctx raw out)
        (map (get_guild_history_select ctx)
          (order_by_capture_date (where_guild_id g (guilds_table pool)))) recs) \<and>
   (get_players ctx pool uuids conn = Inr recs \<longleftrightarrow>
      list_all2 (\<lambda>raw rec. \<exists>out. rec = PyDict out \<and> decoding_rule ctx raw out)
        (map (get_players_select ctx)
          (where_uuid_any uuids (players_table (conn_or_pool pool conn)))) recs) \<and>
   get_id_name_autocomplete pool =
     Inr (map (\<lambda>r. PyDict [(''id'', sql_text (guild_row.guild_id r)),
                            (''name'', sql_text (guild_name r))])
            (latest_rows (guilds_table pool))) \<and>
   (\<exists>d. get_names pool uuids = Inr (PyDict d) \<and>
      set d \<subseteq> {(u, sql_text (name r)) | u r.
                  r \<in> set (players_table pool) \<and> uuid r = Some u \<and> u \<in> set uuids}) \<and>
   get_guild_discord pool g conn =
     Inr (case fetchrow (filter (\<lambda>r. guild_information_row.guild_id r = Some g)
                 (guild_information_table (conn_or_pool pool conn))) of
            None \<Rightarrow> PyNone | Some r \<Rightarrow> sql_text (discord r))"
proof (intro conjI)
  show "get_guilds ctx pool = Inr recs \<longleftrightarrow>
      list_all2 (\<lambda>raw rec. \<exists>out. rec = PyDict out \<and> decoding_rule ctx raw out)
        (map (get_guilds_select ctx) (latest_rows (guilds_table pool))) recs"
    by (simp only: get_guilds_def Let_def formatted_rows)
  show "get_guild_metrics ctx pool g = Inr recs \<longleftrightarrow>
      list_all2 (\<lambda>raw rec. \<exists>out. rec = PyDict out \<and> decoding_rule ctx raw out)
        (map (get_guild_metrics_select ctx)
          (order_by_capture_date (where_guild_id g (guilds_table pool)))) recs"
    by (simp only: get_guild_metrics_def Let_def comprehension_unless_empty formatted_rows)
  show "get_guild_history ctx pool g = Inr recs \<longleftrightarrow>
      list_all2 (\<lambda>raw rec. \<exists>out. rec = PyDict out \<and> decoding_rule ctx raw out)
        (map (get_guild_history_select ctx)
          (order_by_capture_date (where_guild_id g (guilds_table pool)))) recs"
    by (simp only: get_guild_history_def Let_def comprehension_unless_empty formatted_rows)
  show "get_players ctx pool uuids conn = Inr recs \<longleftrightarrow>
      list_all2 (\<lambda>raw rec. \<exists>out. rec = PyDict out \<and> decoding_rule ctx raw out)
        (map (get_players_select ctx)
          (where_uuid_any uuids (players_table (conn_or_pool pool conn)))) recs"
    by (simp only: get_players_def Let_def formatted_rows)
qed (rule get_guild_decoded get_id_name_autocomplete_raw get_names_raw get_guild_discord_raw)+

theorem decoding_rule_where_format_json_is_called_witness:
  "get_guild (example_context [''guild_name'']) example_pool ''G2'' None =
     Inr (PyDict
       [(''average_catacombs'', PyFloat 3), (''average_skills'', PyFloat 2),
        (''average_slayer'', PyFloat 4), (''average_weight'', PyFloat 1),
        (''guild_id'', PyStr ''G2''), (''guild_name'', PyInt 7),
        (''players'', PyList []), (''time_difference'', PyTimedelta 993),
        (''scammers'', PyInt 0)]) \<and>
   (case fetchrow (map (get_guild_select (example_context [''guild_name'']))
            (latest_rows (where_guild_id ''G2''
              (guilds_table (conn_or_pool example_pool None))))) of
      None \<Rightarrow> False
    | Some raw \<Rightarrow> decoding_rule (example_context [''guild_name'']) raw
       [(''average_catacombs'', PyFloat 3), (''average_skills'', PyFloat 2),
        (''average_slayer'', PyFloat 4), (''average_weight'', PyFloat 1),
        (''guild_id'', PyStr ''G2''), (''guild_name'', PyInt 7),
        (''players'', PyList []), (''time_difference'', PyTimedelta 993),
        (''scammers'', PyInt 0)])"
proof -
  have v: "get_guild (example_context [''guild_name'']) example_pool ''G2'' None =
     Inr (PyDict
       [(''average_catacombs'', PyFloat 3), (''average_skills'', PyFloat 2),
        (''average_slayer'', PyFloat 4), (''average_weight'', PyFloat 1),
        (''guild_id'', PyStr ''G2''), (''guild_name'', PyInt 7),
        (''players'', PyList []), (''time_difference'', PyTimedelta 993),
        (''scammers'', PyInt 0)])"
    by (simp add: op_defs example_defs sql_defs)
  note t = decoding_rule_where_format_json_is_called
    [of "example_context [''guild_name'']" example_pool _ "''G2''" None, THEN conjunct2,
     THEN conjunct1, THEN iffD1, OF v]
  from t show ?thesis
    by (auto simp: v split: option.splits)
qed

text \<open>
  Claim C2 as stated fails: with \<^verbatim>\<open>name\<close> and \<^verbatim>\<open>discord\<close> among the \<open>json_keys\<close>, the three
  operations return the stored text \<^verbatim>\<open>7\<close> where the decoding rule gives the number 7.
\<close>

theorem decoding_rule_not_applied_counterexample:
  "get_id_name_autocomplete example_pool =
     Inr [PyDict [(''id'', PyStr ''G1''), (''name'', PyStr ''Alpha2'')],
          PyDict [(''id'', PyStr ''G2''), (''name'', PyStr ''7'')]] \<and>
   \<not> decoding_rule (example_context [''name'', ''discord''])
       [(''id'', PyStr ''G2''), (''name'', PyStr ''7'')]
       [(''id'', PyStr ''G2''), (''name'', PyStr ''7'')] \<and>
   decoding_rule (example_context [''name'', ''discord''])
       [(''id'', PyStr ''G2''), (''name'', PyStr ''7'')]
       [(''id'', PyStr ''G2''), (''name'', PyInt 7)] \<and>
   get_names example_pool [''u1''] = Inr (PyDict [(''u1'', PyStr ''7'')]) \<and>
   format_json (example_context [''name'', ''discord''])
       (Some [(''uuid'', PyStr ''u1''), (''name'', PyStr ''7'')]) =
     Inr (PyDict [(''uuid'', PyStr ''u1''), (''name'', PyInt 7)]) \<and>
   get_guild_discord example_pool ''G1'' None = Inr (PyStr ''7'') \<and>
   format_json (example_context [''name'', ''discord'']) (Some [(''discord'', PyStr ''7'')]) =
     Inr (PyDict [(''discord'', PyInt 7)])"
  by (simp add: op_defs example_defs sql_defs decoding_rule_def decoded_field_def)

section \<open>Which operations take a connection\<close>

text \<open>
  Claim C3, as the code has it. \<^verbatim>\<open>get_guild\<close>, \<^verbatim>\<open>get_players\<close> and \<^verbatim>\<open>get_guild_discord\<close> run
  their statement on the connection when one is given, and on the pool otherwise. The other
  six operations have no such parameter: they run on the pool, and a call that passes
  \<^verbatim>\<open>conn\<close> raises \<^verbatim>\<open>TypeError\<close>.
\<close>

theorem connection_parameter_of_three_operations:
  "call_operation ctx pool (Get_guild g) (Some c) = returning pool id (get_guild ctx c g None) \<and>
   call_operation ctx pool (Get_players uuids) (Some c) =
     returning pool PyList (get_players ctx c uuids None) \<and>
   call_operation ctx pool (Get_guild_discord g) (Some c) =
     returning pool id (get_guild_discord c g None) \<and>
   call_operation ctx pool (Get_guild g) None = returning pool id (get_guild ctx pool g None) \<and>
   call_operation ctx pool (Get_players uuids) None =
     returning pool PyList (get_players ctx pool uuids None) \<and>
   call_operation ctx pool (Get_guild_discord g) None =
     returning pool id (get_guild_discord pool g None) \<and>
   call_operation ctx pool Get_guilds (Some c) = Inl TypeError \<and>
   call_operation ctx pool (Get_guild_metrics g) (Some c) = Inl TypeError \<and>
   call_operation ctx pool (Get_guild_history g) (Some c) = Inl TypeError \<and>
   call_operation ctx pool Get_id_name_autocomplete (Some c) = Inl TypeError \<and>
   call_operation ctx pool (Get_names uuids) (Some c) = Inl TypeError \<and>
   call_operation ctx pool (Upsert_guild_info g d) (Some c) = Inl TypeError \<and>
   call_operation ctx pool Get_guilds None = returning pool PyList (get_guilds ctx pool) \<and>
   call_operation ctx pool (Get_guild_metrics g) None =
     returning pool PyList (get_guild_metrics ctx pool g) \<and>
   call_operation ctx pool (Get_guild_history g) None =
     returning pool PyList (get_guild_history ctx pool g) \<and>
   call_operation ctx pool Get_id_name_autocomplete None =
     returning pool PyList (get_id_name_autocomplete pool) \<and>
   call_operation ctx pool (Get_names uuids) None = returning pool id (get_names pool uuids) \<and>
   call_operation ctx pool (Upsert_guild_info g d) None = Inr (PyNone, upsert_guild_info pool g d)"
  by (simp add: get_guild_def get_players_def get_guild_discord_def conn_or_pool_def)

text \<open>
  Claim C3 as stated fails: \<^verbatim>\<open>get_guilds\<close> called with a connection whose database holds two
  guilds raises \<^verbatim>\<open>TypeError\<close>; it does not run on that connection.
\<close>

theorem connection_ignored_counterexample:
  "call_operation (example_context []) empty_database Get_guilds (Some example_pool) =
     Inl TypeError \<and>
   call_operation (example_context []) empty_database Get_guilds None =
     Inr (PyList [], empty_database) \<and>
   call_operation (example_context []) example_pool Get_guilds None =
     Inr (PyList
       [PyDict
         [(''average_catacombs'', PyFloat 3), (''average_skills'', PyFloat 2),
          (''average_slayer'', PyFloat 4), (''average_weight'', PyFloat 1),
          (''guild_id'', PyStr ''G1''), (''guild_name'', PyStr ''Alpha2''),
          (''players'', PyInt 2), (''time_difference'', PyTimedelta 991),
          (''scammers'', PyInt 0), (''position_change'', PyInt 0)],
        PyDict
         [(''average_catacombs'', PyFloat 3), (''average_skills'', PyFloat 2),
          (''average_slayer'', PyFloat 4), (''average_weight'', PyFloat 1),
          (''guild_id'', PyStr ''G2''), (''guild_name'', PyStr ''7''),
          (''players'', PyNone), (''time_difference'', PyTimedelta 993),
          (''scammers'', PyInt 0), (''position_change'', PyInt 0)]], example_pool)"
  by (simp add: op_defs example_defs sql_defs)

end
